theory Spec2Isabelle
  imports Complex_Main
begin

section \<open>The FriendWatch session server (server.js)\<close>

text \<open>
  The server keeps an in-memory registry \<^verbatim>\<open>rooms\<close> and reacts to one HTTP request
  (\<^verbatim>\<open>POST /create\<close>) and to the socket events \<^verbatim>\<open>join-room\<close>, \<^verbatim>\<open>control\<close>,
  \<^verbatim>\<open>request-sync\<close> and \<^verbatim>\<open>disconnect\<close>. Each handler runs to completion, so a handler
  is a function from the server state to the new state and the list of events it emits.
  \<^verbatim>\<open>Date.now()\<close>, \<^verbatim>\<open>uuidv4()\<close> and \<^verbatim>\<open>socket.id\<close> are supplied by the environment and are
  parameters of the handlers.
\<close>

subsection \<open>Data\<close>

text \<open>\<^verbatim>\<open>room.state\<close>: the fields \<^verbatim>\<open>playing\<close>, \<^verbatim>\<open>currentTime\<close> (seconds, a number sent by
  the client) and \<^verbatim>\<open>lastUpdate\<close> (milliseconds, from \<^verbatim>\<open>Date.now()\<close>).\<close>

record playback =
  playing :: bool
  currentTime :: real
  lastUpdate :: int

text \<open>A room object. \<^verbatim>\<open>hostSocketId\<close> is a socket id or \<^verbatim>\<open>null\<close>; \<^verbatim>\<open>clients\<close> is a
  JavaScript \<^verbatim>\<open>Set\<close>, kept as the list of its elements in insertion order.\<close>

record room =
  videoPath :: string
  artPath :: string
  subtitlePath :: "string option"
  hostSocketId :: "string option"
  state :: playback
  clients :: "string list"

text \<open>The server: the own properties of the object \<^verbatim>\<open>rooms\<close>, and the rooms of the
  socket.io adapter (room name to the ids of the sockets in it), which \<^verbatim>\<open>socket.join\<close>
  fills and \<^verbatim>\<open>io.to(name).emit\<close> reads.\<close>

record server =
  rooms :: "string \<rightharpoonup> room"
  adapter :: "string \<Rightarrow> string set"

text \<open>Outbound events with their payloads: \<^verbatim>\<open>room-error {message}\<close>, \<^verbatim>\<open>role {role}\<close>,
  \<^verbatim>\<open>sync-state {state, serverTime, hostSocketId}\<close> and
  \<^verbatim>\<open>control {action, currentTime, serverTime, playing}\<close>. A field that is \<^verbatim>\<open>null\<close> or
  \<^verbatim>\<open>undefined\<close> is \<open>None\<close>.\<close>

datatype message =
    Room_error string
  | Role string
  | Sync_state "playback option" int "string option"
  | Control_msg string real int bool

text \<open>\<^verbatim>\<open>socket.emit\<close> sends to the socket itself; \<^verbatim>\<open>io.to(name).emit\<close> sends to every
  socket in the adapter room \<^verbatim>\<open>name\<close>.\<close>

datatype target = To_socket string | Io_to string

type_synonym emission = "target \<times> message"

fun recipients :: "server \<Rightarrow> target \<Rightarrow> string set" where
  "recipients s (To_socket sid) = {sid}"
| "recipients s (Io_to name) = adapter s name"

text \<open>An exception thrown inside a handler.\<close>

datatype error = TypeError

subsection \<open>The registry object\<close>

text \<open>\<^verbatim>\<open>rooms\<close> is a plain object literal, so \<^verbatim>\<open>rooms[roomId]\<close> also finds the properties
  that every object inherits from \<^verbatim>\<open>Object.prototype\<close>; each of them is a function or an
  object, hence truthy, and none has a property \<^verbatim>\<open>clients\<close>, \<^verbatim>\<open>state\<close> or
  \<^verbatim>\<open>hostSocketId\<close>.\<close>

definition prototype_keys :: "string list" where
  "prototype_keys =
     [''constructor'', ''__defineGetter__'', ''__defineSetter__'', ''hasOwnProperty'',
      ''__lookupGetter__'', ''__lookupSetter__'', ''isPrototypeOf'', ''propertyIsEnumerable'',
      ''toString'', ''valueOf'', ''__proto__'', ''toLocaleString'']"

datatype lookup = Absent | Own room | Inherited

definition rooms_get :: "server \<Rightarrow> string \<Rightarrow> lookup" where
  "rooms_get s roomId =
     (case rooms s roomId of
        Some r \<Rightarrow> Own r
      | None \<Rightarrow> if roomId \<in> set prototype_keys then Inherited else Absent)"

subsection \<open>Set operations on the client list\<close>

definition set_add :: "string list \<Rightarrow> string \<Rightarrow> string list" where
  "set_add xs x = (if x \<in> set xs then xs else xs @ [x])"

definition set_delete :: "string list \<Rightarrow> string \<Rightarrow> string list" where
  "set_delete xs x = removeAll x xs"

text \<open>\<^verbatim>\<open>!room.hostSocketId\<close>: \<^verbatim>\<open>null\<close> and the empty string are falsy.\<close>

definition falsy :: "string option \<Rightarrow> bool" where
  "falsy h = (case h of None \<Rightarrow> True | Some x \<Rightarrow> x = [])"

text \<open>\<^verbatim>\<open>[...room.clients][0] || null\<close>.\<close>

definition first_or_null :: "string list \<Rightarrow> string option" where
  "first_or_null xs = (case xs of [] \<Rightarrow> None | x # _ \<Rightarrow> if x = [] then None else Some x)"

subsection \<open>Handlers\<close>

text \<open>\<^verbatim>\<open>app.post('/create')\<close>. \<open>roomId\<close> is the result of \<^verbatim>\<open>uuidv4()\<close>, 36 characters
  of hexadecimal digits and dashes, so the assignment \<^verbatim>\<open>rooms[roomId] = ...\<close> creates or
  replaces an own property. \<open>video\<close>, \<open>art\<close> and \<open>subtitle\<close> are the base names of the
  stored uploads, \<open>None\<close> for a missing file. Without video or art the request is
  answered with status 400 and no room is stored. The HTTP response is not a socket
  event and is left out.\<close>

definition new_room :: "string \<Rightarrow> string \<Rightarrow> string option \<Rightarrow> int \<Rightarrow> room" where
  "new_room video art subtitle now =
     \<lparr> videoPath = ''/uploads/'' @ video,
       artPath = ''/uploads/'' @ art,
       subtitlePath = (case subtitle of None \<Rightarrow> None | Some f \<Rightarrow> Some (''/uploads/'' @ f)),
       hostSocketId = None,
       state = \<lparr> playing = False, currentTime = 0, lastUpdate = now \<rparr>,
       clients = [] \<rparr>"

definition create ::
  "server \<Rightarrow> string \<Rightarrow> string option \<Rightarrow> string option \<Rightarrow> string option \<Rightarrow> int \<Rightarrow> server" where
  "create s roomId video art subtitle now =
     (case video of
        None \<Rightarrow> s
      | Some v \<Rightarrow>
          (case art of
             None \<Rightarrow> s
           | Some a \<Rightarrow> s\<lparr>rooms := (rooms s)(roomId \<mapsto> new_room v a subtitle now)\<rparr>))"

text \<open>\<^verbatim>\<open>io.on('connection')\<close>: socket.io puts every new socket into the adapter room named
  by its own id; the callback only registers the handlers below.\<close>

definition connection :: "server \<Rightarrow> string \<Rightarrow> server" where
  "connection s sid = s\<lparr>adapter := (adapter s)(sid := insert sid (adapter s sid))\<rparr>"

text \<open>\<^verbatim>\<open>socket.on('join-room')\<close>. For an inherited property \<^verbatim>\<open>room.clients\<close> is
  \<^verbatim>\<open>undefined\<close> and reading its \<^verbatim>\<open>size\<close> throws.\<close>

definition join_room ::
  "server \<Rightarrow> string \<Rightarrow> string \<Rightarrow> bool \<Rightarrow> int \<Rightarrow> error + server \<times> emission list" where
  "join_room s sid roomId asHost now =
     (case rooms_get s roomId of
        Absent \<Rightarrow> Inr (s, [(To_socket sid, Room_error ''Room not found.'')])
      | Inherited \<Rightarrow> Inl TypeError
      | Own r \<Rightarrow>
          if 2 \<le> length (clients r) \<and> sid \<notin> set (clients r)
          then Inr (s, [(To_socket sid, Room_error ''Room is full (2 users max).'')])
          else
            let joined = (adapter s)(roomId := insert sid (adapter s roomId));
                r1 = r\<lparr>clients := set_add (clients r) sid\<rparr>
            in if asHost \<or> falsy (hostSocketId r1)
               then Inr (s\<lparr>rooms := (rooms s)(roomId \<mapsto> r1\<lparr>hostSocketId := Some sid\<rparr>),
                           adapter := joined\<rparr>,
                         [(To_socket sid, Role ''host'')])
               else Inr (s\<lparr>rooms := (rooms s)(roomId \<mapsto> r1), adapter := joined\<rparr>,
                         [(To_socket sid, Role ''guest''),
                          (To_socket sid, Sync_state (Some (state r1)) now (hostSocketId r1))]))"

text \<open>The three branches on \<^verbatim>\<open>action\<close> in \<^verbatim>\<open>socket.on('control')\<close>.\<close>

definition apply_action :: "string \<Rightarrow> real \<Rightarrow> int \<Rightarrow> playback \<Rightarrow> playback" where
  "apply_action action ct now st =
     (if action = ''play'' then st\<lparr>playing := True, currentTime := ct, lastUpdate := now\<rparr>
      else if action = ''pause'' then st\<lparr>playing := False, currentTime := ct, lastUpdate := now\<rparr>
      else if action = ''seek'' then st\<lparr>currentTime := ct, lastUpdate := now\<rparr>
      else st)"

text \<open>\<^verbatim>\<open>socket.on('control')\<close>. For an inherited property \<^verbatim>\<open>room.hostSocketId\<close> is
  \<^verbatim>\<open>undefined\<close>, which no socket id equals, so the handler returns.\<close>

definition control ::
  "server \<Rightarrow> string \<Rightarrow> string \<Rightarrow> string \<Rightarrow> real \<Rightarrow> int \<Rightarrow> error + server \<times> emission list" where
  "control s sid roomId action ct now =
     (case rooms_get s roomId of
        Absent \<Rightarrow> Inr (s, [])
      | Inherited \<Rightarrow> Inr (s, [])
      | Own r \<Rightarrow>
          if Some sid \<noteq> hostSocketId r then Inr (s, [])
          else
            let st = apply_action action ct now (state r)
            in Inr (s\<lparr>rooms := (rooms s)(roomId \<mapsto> r\<lparr>state := st\<rparr>)\<rparr>,
                    [(Io_to roomId, Control_msg action ct now (playing st))]))"

text \<open>\<^verbatim>\<open>socket.on('request-sync')\<close>. An inherited property passes the test \<^verbatim>\<open>!room\<close>, and
  its \<^verbatim>\<open>state\<close> and \<^verbatim>\<open>hostSocketId\<close> are \<^verbatim>\<open>undefined\<close>.\<close>

definition request_sync ::
  "server \<Rightarrow> string \<Rightarrow> string \<Rightarrow> int \<Rightarrow> error + server \<times> emission list" where
  "request_sync s sid roomId now =
     (case rooms_get s roomId of
        Absent \<Rightarrow> Inr (s, [])
      | Inherited \<Rightarrow> Inr (s, [(Io_to sid, Sync_state None now None)])
      | Own r \<Rightarrow> Inr (s, [(Io_to sid, Sync_state (Some (state r)) now (hostSocketId r))]))"

text \<open>The body of the \<^verbatim>\<open>forEach\<close> in \<^verbatim>\<open>socket.on('disconnect')\<close> for one room: the room
  as it is afterwards, or \<open>None\<close> when it is deleted from the registry.\<close>

definition leave :: "string \<Rightarrow> room \<Rightarrow> room option" where
  "leave sid r =
     (if sid \<in> set (clients r)
      then
        let r1 = r\<lparr>clients := set_delete (clients r) sid\<rparr>;
            r2 = (if hostSocketId r1 = Some sid
                  then r1\<lparr>hostSocketId := first_or_null (clients r1)\<rparr> else r1)
        in if length (clients r2) = 0 then None else Some r2
      else Some r)"

text \<open>\<^verbatim>\<open>socket.on('disconnect')\<close>: socket.io has removed the socket from every adapter room;
  the handler visits every entry of \<^verbatim>\<open>rooms\<close>.\<close>

definition disconnect :: "server \<Rightarrow> string \<Rightarrow> server" where
  "disconnect s sid =
     s\<lparr>rooms := (\<lambda>roomId. case rooms s roomId of None \<Rightarrow> None | Some r \<Rightarrow> leave sid r),
       adapter := (\<lambda>name. adapter s name - {sid})\<rparr>"

subsection \<open>Event sequences\<close>

datatype event =
    Create string "string option" "string option" "string option" int
  | Connection string
  | Join_room string string bool int
  | Control string string string real int
  | Request_sync string string int
  | Disconnect string

fun handle :: "server \<Rightarrow> event \<Rightarrow> error + server \<times> emission list" where
  "handle s (Create roomId video art subtitle now) = Inr (create s roomId video art subtitle now, [])"
| "handle s (Connection sid) = Inr (connection s sid, [])"
| "handle s (Join_room sid roomId asHost now) = join_room s sid roomId asHost now"
| "handle s (Control sid roomId action ct now) = control s sid roomId action ct now"
| "handle s (Request_sync sid roomId now) = request_sync s sid roomId now"
| "handle s (Disconnect sid) = Inr (disconnect s sid, [])"

text \<open>Events are handled one at a time in arrival order; an exception that no handler
  catches ends the run.\<close>

fun run :: "server \<Rightarrow> event list \<Rightarrow> error + server \<times> emission list" where
  "run s [] = Inr (s, [])"
| "run s (e # es) =
     (case handle s e of
        Inl err \<Rightarrow> Inl err
      | Inr (s1, out1) \<Rightarrow>
          (case run s1 es of
             Inl err \<Rightarrow> Inl err
           | Inr (s2, out2) \<Rightarrow> Inr (s2, out1 @ out2)))"

text \<open>The server at start-up: \<^verbatim>\<open>const rooms = {}\<close> and no socket connected.\<close>

definition init_server :: server where
  "init_server = \<lparr> rooms = Map.empty, adapter = (\<lambda>name. {}) \<rparr>"

subsection \<open>Invariants and sample data\<close>

text \<open>What every room of a reachable server satisfies: the client list has no
  duplicates and at most two entries, every client has joined the adapter room of the
  same name, and the host is one of the clients.\<close>

definition room_ok :: "server \<Rightarrow> string \<Rightarrow> room \<Rightarrow> bool" where
  "room_ok s roomId r \<longleftrightarrow>
     distinct (clients r) \<and> length (clients r) \<le> 2 \<and> set (clients r) \<subseteq> adapter s roomId \<and>
     (\<forall>h. hostSocketId r = Some h \<longrightarrow> h \<in> set (clients r))"

definition inv :: "server \<Rightarrow> bool" where
  "inv s \<longleftrightarrow> (\<forall>roomId r. rooms s roomId = Some r \<longrightarrow> room_ok s roomId r)"

text \<open>A session: a room is created, \<open>H\<close> connects and joins as host, \<open>G\<close> connects and
  joins as guest.\<close>

definition demo_events :: "event list" where
  "demo_events =
     [Create ''r1'' (Some ''film.mp4'') (Some ''cover.png'') None 100,
      Connection ''H'', Join_room ''H'' ''r1'' True 110,
      Connection ''G'', Join_room ''G'' ''r1'' False 120]"




section \<open>Invariants of the reachable states\<close>

lemma rooms_get_Own: "rooms s roomId = Some r \<Longrightarrow> rooms_get s roomId = Own r"
  by (simp add: rooms_get_def)


lemma inv_init: "inv init_server"
  by (simp add: inv_def init_server_def)

lemma inv_create: "inv s \<Longrightarrow> inv (create s roomId video art subtitle now)"
  by (auto simp: inv_def create_def new_room_def room_ok_def split: option.splits)

lemma inv_connection: "inv s \<Longrightarrow> inv (connection s sid)"
  by (auto simp: inv_def connection_def room_ok_def)

lemma set_set_add: "set (set_add xs x) = insert x (set xs)"
  by (auto simp: set_add_def)

lemma distinct_set_add: "distinct xs \<Longrightarrow> distinct (set_add xs x)"
  by (simp add: set_add_def)

lemma length_set_add: "length (set_add xs x) = (if x \<in> set xs then length xs else Suc (length xs))"
  by (simp add: set_add_def)

lemma invD: "inv s \<Longrightarrow> rooms s roomId = Some r \<Longrightarrow> room_ok s roomId r"
  by (simp add: inv_def)

lemma inv_update:
  assumes "inv s" and "room_ok s' roomId r'"
    and "rooms s' = (rooms s)(roomId \<mapsto> r')"
    and "\<And>k. k \<noteq> roomId \<Longrightarrow> adapter s' k = adapter s k"
  shows "inv s'"
  unfolding inv_def
proof (intro allI impI)
  fix k x assume x: "rooms s' k = Some x"
  show "room_ok s' k x"
  proof (cases "k = roomId")
    case True
    with x assms(2,3) show ?thesis by simp
  next
    case False
    with x assms(3) have "rooms s k = Some x" by simp
    with assms(1) have "room_ok s k x" by (rule invD)
    with assms(4)[OF False] show ?thesis by (simp add: room_ok_def)
  qed
qed

lemma join_room_no_room:
  "rooms s roomId = None \<Longrightarrow>
   join_room s sid roomId asHost now =
     (if roomId \<in> set prototype_keys then Inl TypeError
      else Inr (s, [(To_socket sid, Room_error ''Room not found.'')]))"
  by (simp add: join_room_def rooms_get_def)

lemma join_room_full:
  "rooms s roomId = Some r \<Longrightarrow> 2 \<le> length (clients r) \<Longrightarrow> sid \<notin> set (clients r) \<Longrightarrow>
   join_room s sid roomId asHost now =
     Inr (s, [(To_socket sid, Room_error ''Room is full (2 users max).'')])"
  by (simp add: join_room_def rooms_get_def)

lemma join_room_admitted:
  "rooms s roomId = Some r \<Longrightarrow> \<not> (2 \<le> length (clients r) \<and> sid \<notin> set (clients r)) \<Longrightarrow>
   join_room s sid roomId asHost now =
     (if asHost \<or> falsy (hostSocketId r)
      then Inr (s\<lparr>rooms := (rooms s)(roomId \<mapsto>
                        r\<lparr>clients := set_add (clients r) sid, hostSocketId := Some sid\<rparr>),
                  adapter := (adapter s)(roomId := insert sid (adapter s roomId))\<rparr>,
                [(To_socket sid, Role ''host'')])
      else Inr (s\<lparr>rooms := (rooms s)(roomId \<mapsto> r\<lparr>clients := set_add (clients r) sid\<rparr>),
                  adapter := (adapter s)(roomId := insert sid (adapter s roomId))\<rparr>,
                [(To_socket sid, Role ''guest''),
                 (To_socket sid, Sync_state (Some (state r)) now (hostSocketId r))]))"
  by (auto simp add: join_room_def rooms_get_def Let_def)

lemma inv_join_room:
  assumes "inv s" and "join_room s sid roomId asHost now = Inr (s', out)"
  shows "inv s'"
proof (cases "rooms s roomId")
  case None
  with assms show ?thesis
    by (simp add: join_room_no_room split: if_splits)
next
  case (Some r)
  with assms(1) have ok: "room_ok s roomId r" by (rule invD)
  show ?thesis
  proof (cases "2 \<le> length (clients r) \<and> sid \<notin> set (clients r)")
    case True
    with Some assms show ?thesis by (simp add: join_room_full)
  next
    case False
    define ad where "ad = (adapter s)(roomId := insert sid (adapter s roomId))"
    define r1 where "r1 = r\<lparr>clients := set_add (clients r) sid\<rparr>"
    have len: "length (set_add (clients r) sid) \<le> 2"
      using False ok by (auto simp: length_set_add room_ok_def)
    have ok1: "room_ok (s\<lparr>rooms := m, adapter := ad\<rparr>) roomId r1" for m
      using ok len by (auto simp: room_ok_def r1_def ad_def set_set_add distinct_set_add)
    have ok2: "room_ok (s\<lparr>rooms := m, adapter := ad\<rparr>) roomId (r1\<lparr>hostSocketId := Some sid\<rparr>)" for m
      using ok len by (auto simp: room_ok_def r1_def ad_def set_set_add distinct_set_add)
    from assms(2) Some False
    consider "s' = s\<lparr>rooms := (rooms s)(roomId \<mapsto> r1\<lparr>hostSocketId := Some sid\<rparr>), adapter := ad\<rparr>"
      | "s' = s\<lparr>rooms := (rooms s)(roomId \<mapsto> r1), adapter := ad\<rparr>"
      by (auto simp: join_room_admitted r1_def ad_def split: if_splits)
    then show ?thesis
    proof cases
      case 1
      show ?thesis
        by (rule inv_update[OF assms(1), where roomId = roomId and r' = "r1\<lparr>hostSocketId := Some sid\<rparr>"])
          (simp_all add: 1 ok2, simp add: ad_def)
    next
      case 2
      show ?thesis
        by (rule inv_update[OF assms(1), where roomId = roomId and r' = r1])
          (simp_all add: 2 ok1, simp add: ad_def)
    qed
  qed
qed

lemma control_no_room: "rooms s roomId = None \<Longrightarrow> control s sid roomId action ct now = Inr (s, [])"
  by (simp add: control_def rooms_get_def)

lemma control_room:
  "rooms s roomId = Some r \<Longrightarrow>
   control s sid roomId action ct now =
     (if Some sid \<noteq> hostSocketId r then Inr (s, [])
      else Inr (s\<lparr>rooms := (rooms s)(roomId \<mapsto> r\<lparr>state := apply_action action ct now (state r)\<rparr>)\<rparr>,
                [(Io_to roomId, Control_msg action ct now (playing (apply_action action ct now (state r))))]))"
  by (simp add: control_def rooms_get_def Let_def)

lemma inv_control:
  assumes "inv s" and "control s sid roomId action ct now = Inr (s', out)"
  shows "inv s'"
proof (cases "rooms s roomId")
  case None
  with assms show ?thesis
    by (simp add: control_no_room)
next
  case (Some r)
  with assms(1) have ok: "room_ok s roomId r" by (rule invD)
  show ?thesis
  proof (cases "Some sid = hostSocketId r")
    case False
    with Some assms show ?thesis by (simp add: control_room)
  next
    case True
    with Some assms(2)
    have s': "s' = s\<lparr>rooms := (rooms s)(roomId \<mapsto> r\<lparr>state := apply_action action ct now (state r)\<rparr>)\<rparr>"
      by (simp add: control_room)
    from ok have "room_ok s' roomId (r\<lparr>state := apply_action action ct now (state r)\<rparr>)"
      by (simp add: room_ok_def s')
    moreover have "room_ok s' k x" if "k \<noteq> roomId" "rooms s k = Some x" for k x
      using invD[OF assms(1) that(2)] by (simp add: room_ok_def s')
    ultimately show ?thesis
      by (auto simp: inv_def s')
  qed
qed

lemma inv_request_sync:
  assumes "inv s" and "request_sync s sid roomId now = Inr (s', out)"
  shows "inv s'"
  using assms
  by (auto simp: request_sync_def rooms_get_def split: option.splits if_splits)

lemma first_or_null_mem: "first_or_null xs = Some h \<Longrightarrow> h \<in> set xs"
  by (auto simp: first_or_null_def split: list.splits if_splits)

lemma leave_ok:
  assumes "room_ok s roomId r" and "leave sid r = Some r'"
  shows "room_ok (disconnect s sid) roomId r'"
proof (cases "sid \<in> set (clients r)")
  case False
  with assms have "r' = r" by (simp add: leave_def)
  with assms(1) False show ?thesis
    by (auto simp: room_ok_def disconnect_def)
next
  case True
  define cs where "cs = removeAll sid (clients r)"
  have cs: "distinct cs" "length cs \<le> 2" "set cs = set (clients r) - {sid}"
    using assms(1) le_trans[OF length_removeAll_less_eq, of "clients r" 2 sid]
    by (auto simp: cs_def room_ok_def distinct_removeAll)
  have r': "r' = (if hostSocketId r = Some sid
                  then r\<lparr>clients := cs, hostSocketId := first_or_null cs\<rparr>
                  else r\<lparr>clients := cs\<rparr>)"
    using assms(2) True
    by (simp add: leave_def set_delete_def Let_def cs_def split: if_splits)
  have host: "h \<in> set cs" if "hostSocketId r' = Some h" for h
  proof (cases "hostSocketId r = Some sid")
    case True
    with that r' show ?thesis by (simp add: first_or_null_mem)
  next
    case False
    with that r' have "hostSocketId r = Some h" by simp
    with assms(1) False show ?thesis by (auto simp: room_ok_def cs(3))
  qed
  have "clients r' = cs" using r' by simp
  with cs host assms(1) show ?thesis
    by (auto simp: room_ok_def disconnect_def)
qed

lemma inv_disconnect: "inv s \<Longrightarrow> inv (disconnect s sid)"
  unfolding inv_def
proof (intro allI impI)
  fix roomId r'
  assume a: "\<forall>roomId r. rooms s roomId = Some r \<longrightarrow> room_ok s roomId r"
    and b: "rooms (disconnect s sid) roomId = Some r'"
  from b obtain r where r: "rooms s roomId = Some r" "leave sid r = Some r'"
    by (auto simp: disconnect_def split: option.splits)
  with a have "room_ok s roomId r" by blast
  with r show "room_ok (disconnect s sid) roomId r'" by (blast intro: leave_ok)
qed

lemma inv_handle: "inv s \<Longrightarrow> handle s e = Inr (s', out) \<Longrightarrow> inv s'"
  by (cases e) (auto intro: inv_create inv_connection inv_join_room inv_control
      inv_request_sync inv_disconnect)

lemma inv_run: "inv s \<Longrightarrow> run s es = Inr (s', out) \<Longrightarrow> inv s'"
proof (induction es arbitrary: s out)
  case Nil
  then show ?case by simp
next
  case (Cons e es)
  from Cons.prems(2) obtain s1 out1 out2
    where h: "handle s e = Inr (s1, out1)" and r: "run s1 es = Inr (s', out2)"
    by (auto split: sum.splits)
  from Cons.prems(1) h have "inv s1" by (rule inv_handle)
  then show ?case using r by (rule Cons.IH)
qed

lemma apply_action_play:
  "apply_action ''play'' ct now st = \<lparr>playing = True, currentTime = ct, lastUpdate = now\<rparr>"
  by (cases st) (simp add: apply_action_def)

lemma apply_action_pause:
  "apply_action ''pause'' ct now st = \<lparr>playing = False, currentTime = ct, lastUpdate = now\<rparr>"
  by (cases st) (simp add: apply_action_def)

lemma apply_action_seek:
  "apply_action ''seek'' ct now st = \<lparr>playing = playing st, currentTime = ct, lastUpdate = now\<rparr>"
  by (cases st) (simp add: apply_action_def)

lemma apply_action_other:
  "action \<noteq> ''play'' \<Longrightarrow> action \<noteq> ''pause'' \<Longrightarrow> action \<noteq> ''seek'' \<Longrightarrow>
   apply_action action ct now st = st"
  by (simp add: apply_action_def)

lemma reachable_inv: "run init_server es = Inr (s, out) \<Longrightarrow> inv s"
  using inv_init by (rule inv_run)

lemma demo_eval:
  "\<exists>s out r. run init_server demo_events = Inr (s, out) \<and> rooms s ''r1'' = Some r \<and>
     hostSocketId r = Some ''H'' \<and> clients r = [''H'', ''G''] \<and> adapter s ''r1'' = {''H'', ''G''}"
  by (simp add: demo_events_def init_server_def create_def new_room_def connection_def
      join_room_def rooms_get_def prototype_keys_def set_add_def falsy_def Let_def insert_commute)

lemma distinct_singleton_set: "distinct ys \<Longrightarrow> set ys = {m} \<Longrightarrow> ys = [m]"
proof (cases ys)
  case Nil
  assume "set ys = {m}"
  with Nil show ?thesis by simp
next
  case (Cons a zs)
  assume d: "distinct ys" and s: "set ys = {m}"
  from s Cons have a: "a = m" by auto
  from s Cons a have "set zs \<subseteq> {m}" by auto
  moreover from d Cons a have "m \<notin> set zs" by simp
  ultimately have "zs = []" by (cases zs) auto
  with Cons a show ?thesis by simp
qed

lemma removeAll_pair:
  assumes "distinct xs" and "set xs = {h, m}" and "h \<noteq> m"
  shows "removeAll h xs = [m]"
proof (rule distinct_singleton_set)
  from assms(1) show "distinct (removeAll h xs)" by (rule distinct_removeAll)
  from assms(2,3) show "set (removeAll h xs) = {m}" by auto
qed

lemma rooms_disconnect:
  "rooms (disconnect s sid) roomId = (case rooms s roomId of None \<Rightarrow> None | Some r \<Rightarrow> leave sid r)"
  by (simp add: disconnect_def)

lemma adapter_disconnect: "adapter (disconnect s sid) name = adapter s name - {sid}"
  by (simp add: disconnect_def)

lemma handle_room_error:
  assumes "handle s e = Inr (s', out)" and "(t, Room_error m) \<in> set out"
  shows "\<exists>sid roomId asHost now. e = Join_room sid roomId asHost now \<and> t = To_socket sid"
proof (cases e)
  case (Join_room sid roomId asHost now)
  have "t = To_socket sid"
  proof (cases "rooms s roomId")
    case None
    with assms Join_room show ?thesis
      by (auto simp: join_room_no_room split: if_splits)
  next
    case (Some r)
    show ?thesis
    proof (cases "2 \<le> length (clients r) \<and> sid \<notin> set (clients r)")
      case True
      with assms Join_room Some show ?thesis by (auto simp: join_room_full)
    next
      case False
      with assms Join_room Some show ?thesis
        by (auto simp: join_room_admitted split: if_splits)
    qed
  qed
  with Join_room show ?thesis by simp
next
  case (Control sid roomId action ct now)
  with assms show ?thesis
    by (cases "rooms s roomId")
      (auto simp: control_no_room control_room split: if_splits)
next
  case (Request_sync sid roomId now)
  with assms show ?thesis
    by (auto simp: request_sync_def rooms_get_def split: option.splits if_splits)
qed (use assms in auto)

lemma request_sync_room:
  "rooms s roomId = Some r \<Longrightarrow>
   request_sync s sid roomId now =
     Inr (s, [(Io_to sid, Sync_state (Some (state r)) now (hostSocketId r))])"
  by (simp add: request_sync_def rooms_get_def)

lemma request_sync_no_room:
  "rooms s roomId = None \<Longrightarrow>
   request_sync s sid roomId now =
     (if roomId \<in> set prototype_keys then Inr (s, [(Io_to sid, Sync_state None now None)])
      else Inr (s, []))"
  by (simp add: request_sync_def rooms_get_def)







lemma request_sync_on_rooms:
  "(rooms s roomId = Some r \<longrightarrow>
      request_sync s sid roomId now =
        Inr (s, [(Io_to sid, Sync_state (Some (state r)) now (hostSocketId r))])) \<and>
   (rooms s roomId = None \<and> roomId \<notin> set prototype_keys \<longrightarrow>
      request_sync s sid roomId now = Inr (s, []))"
  by (simp add: request_sync_room request_sync_no_room)

section \<open>Properties\<close>

text \<open>
  C1. In an existing room a \<^verbatim>\<open>control\<close> event whose sender is not the room's host is
  dropped: the server state (and with it the room's playback state) is unchanged and
  nothing is emitted, neither a broadcast nor an error.
\<close>

theorem control_non_host_discarded:
  assumes "rooms s roomId = Some r" and "hostSocketId r \<noteq> Some sid"
  shows "control s sid roomId action ct now = Inr (s, [])"
  using assms by (auto simp: control_def rooms_get_Own)

theorem control_non_host_discarded_witness:
  "\<exists>s out r. run init_server demo_events = Inr (s, out) \<and> rooms s ''r1'' = Some r \<and>
     hostSocketId r \<noteq> Some ''G'' \<and> control s ''G'' ''r1'' ''pause'' 15 140 = Inr (s, [])"
proof -
  obtain s out r where a: "run init_server demo_events = Inr (s, out)"
    and b: "rooms s ''r1'' = Some r" and c: "hostSocketId r \<noteq> Some ''G''"
    by (simp add: demo_events_def init_server_def create_def new_room_def connection_def
      join_room_def rooms_get_def prototype_keys_def set_add_def falsy_def Let_def)
  from control_non_host_discarded[OF b c, of "''pause''" 15 140]
  have "control s ''G'' ''r1'' ''pause'' 15 140 = Inr (s, [])" .
  with a b c show ?thesis by (intro exI[of _ s] exI[of _ out] exI[of _ r]) simp
qed

text \<open>
  C2. In every state the server reaches from start-up, whatever the events were, a room's
  client set has at most two members (the list holds each member once). A \<^verbatim>\<open>join-room\<close>
  into a room with two members from a connection that is not one of them is answered
  with the room-error "Room is full (2 users max).", emitted to the requesting socket
  alone, and leaves the server state as it was.
\<close>

theorem members_at_most_two:
  assumes "run init_server es = Inr (s, out)" and "rooms s roomId = Some r"
  shows "distinct (clients r) \<and> length (clients r) \<le> 2 \<and>
    (2 \<le> length (clients r) \<and> sid \<notin> set (clients r) \<longrightarrow>
       join_room s sid roomId asHost now =
         Inr (s, [(To_socket sid, Room_error ''Room is full (2 users max).'')]))"
proof -
  from assms(1) have "inv s" by (rule reachable_inv)
  then have "room_ok s roomId r" using assms(2) by (rule invD)
  then show ?thesis using assms(2) by (simp add: room_ok_def join_room_full)
qed

theorem members_at_most_two_witness:
  "\<exists>s out r. run init_server demo_events = Inr (s, out) \<and> rooms s ''r1'' = Some r \<and>
     distinct (clients r) \<and> length (clients r) \<le> 2 \<and>
     2 \<le> length (clients r) \<and> ''X'' \<notin> set (clients r) \<and>
     join_room s ''X'' ''r1'' False 130 =
       Inr (s, [(To_socket ''X'', Room_error ''Room is full (2 users max).'')])"
proof -
  from demo_eval obtain s out r where a: "run init_server demo_events = Inr (s, out)"
    and b: "rooms s ''r1'' = Some r" and c: "clients r = [''H'', ''G'']"
    by (elim exE conjE)
  from c have d: "2 \<le> length (clients r)" and e: "''X'' \<notin> set (clients r)" by simp_all
  from members_at_most_two[OF a b, of "''X''" False 130] d e
  have "distinct (clients r) \<and> length (clients r) \<le> 2 \<and>
     join_room s ''X'' ''r1'' False 130 =
       Inr (s, [(To_socket ''X'', Room_error ''Room is full (2 users max).'')])"
    by simp
  with a b d e show ?thesis by (intro exI[of _ s] exI[of _ out] exI[of _ r]) simp
qed

text \<open>
  C3. In a reachable state, a \<^verbatim>\<open>control\<close> event from the host of an existing room stores
  \<open>playing = True\<close> for play and \<open>playing = False\<close> for pause, keeps \<open>playing\<close> for
  seek, and in all three cases stores the supplied \<open>currentTime\<close> and \<open>lastUpdate = now\<close>.
  It emits one \<^verbatim>\<open>control\<close> event with the action, the supplied time, \<open>now\<close> and the new
  \<open>playing\<close> to the adapter room of the session, whose sockets include every client of
  the room and the host itself.
\<close>

theorem host_control_applied:
  assumes "run init_server es = Inr (s, out)" and "rooms s roomId = Some r"
    and "hostSocketId r = Some sid"
  shows "control s sid roomId ''play'' ct now =
           Inr (s\<lparr>rooms := (rooms s)(roomId \<mapsto>
                    r\<lparr>state := \<lparr>playing = True, currentTime = ct, lastUpdate = now\<rparr>\<rparr>)\<rparr>,
                [(Io_to roomId, Control_msg ''play'' ct now True)]) \<and>
         control s sid roomId ''pause'' ct now =
           Inr (s\<lparr>rooms := (rooms s)(roomId \<mapsto>
                    r\<lparr>state := \<lparr>playing = False, currentTime = ct, lastUpdate = now\<rparr>\<rparr>)\<rparr>,
                [(Io_to roomId, Control_msg ''pause'' ct now False)]) \<and>
         control s sid roomId ''seek'' ct now =
           Inr (s\<lparr>rooms := (rooms s)(roomId \<mapsto>
                    r\<lparr>state := \<lparr>playing = playing (state r), currentTime = ct, lastUpdate = now\<rparr>\<rparr>)\<rparr>,
                [(Io_to roomId, Control_msg ''seek'' ct now (playing (state r)))]) \<and>
         set (clients r) \<subseteq> recipients s (Io_to roomId) \<and>
         sid \<in> recipients s (Io_to roomId)"
proof -
  from assms(1) have "inv s" by (rule reachable_inv)
  then have ok: "room_ok s roomId r" using assms(2) by (rule invD)
  have "control s sid roomId ''play'' ct now =
           Inr (s\<lparr>rooms := (rooms s)(roomId \<mapsto>
                    r\<lparr>state := \<lparr>playing = True, currentTime = ct, lastUpdate = now\<rparr>\<rparr>)\<rparr>,
                [(Io_to roomId, Control_msg ''play'' ct now True)])"
    using assms(2,3)
    by (simp add: control_room apply_action_play apply_action_pause apply_action_seek)
  moreover have "control s sid roomId ''pause'' ct now =
           Inr (s\<lparr>rooms := (rooms s)(roomId \<mapsto>
                    r\<lparr>state := \<lparr>playing = False, currentTime = ct, lastUpdate = now\<rparr>\<rparr>)\<rparr>,
                [(Io_to roomId, Control_msg ''pause'' ct now False)])"
    using assms(2,3)
    by (simp add: control_room apply_action_play apply_action_pause apply_action_seek)
  moreover have "control s sid roomId ''seek'' ct now =
           Inr (s\<lparr>rooms := (rooms s)(roomId \<mapsto>
                    r\<lparr>state := \<lparr>playing = playing (state r), currentTime = ct, lastUpdate = now\<rparr>\<rparr>)\<rparr>,
                [(Io_to roomId, Control_msg ''seek'' ct now (playing (state r)))])"
    using assms(2,3)
    by (simp add: control_room apply_action_play apply_action_pause apply_action_seek)
  moreover from ok assms(3) have "set (clients r) \<subseteq> recipients s (Io_to roomId)"
    and "sid \<in> recipients s (Io_to roomId)"
    by (auto simp: room_ok_def)
  ultimately show ?thesis by blast
qed

theorem host_control_applied_witness:
  "\<exists>s out r. run init_server demo_events = Inr (s, out) \<and> rooms s ''r1'' = Some r \<and>
     hostSocketId r = Some ''H'' \<and>
     control s ''H'' ''r1'' ''play'' 10 130 =
       Inr (s\<lparr>rooms := (rooms s)(''r1'' \<mapsto>
                r\<lparr>state := \<lparr>playing = True, currentTime = 10, lastUpdate = 130\<rparr>\<rparr>)\<rparr>,
            [(Io_to ''r1'', Control_msg ''play'' 10 130 True)]) \<and>
     recipients s (Io_to ''r1'') = {''H'', ''G''}"
proof -
  from demo_eval obtain s out r where a: "run init_server demo_events = Inr (s, out)"
    and b: "rooms s ''r1'' = Some r" and c: "hostSocketId r = Some ''H''"
    and d: "adapter s ''r1'' = {''H'', ''G''}"
    by (elim exE conjE)
  from d have e: "recipients s (Io_to ''r1'') = {''H'', ''G''}" by simp
  from host_control_applied[OF a b c, of 10 130]
  have "control s ''H'' ''r1'' ''play'' 10 130 =
       Inr (s\<lparr>rooms := (rooms s)(''r1'' \<mapsto>
                r\<lparr>state := \<lparr>playing = True, currentTime = 10, lastUpdate = 130\<rparr>\<rparr>)\<rparr>,
            [(Io_to ''r1'', Control_msg ''play'' 10 130 True)])"
    by (elim conjE)
  with a b c e show ?thesis by (intro exI[of _ s] exI[of _ out] exI[of _ r]) simp
qed

text \<open>
  C4. A \<^verbatim>\<open>join-room\<close> that is admitted into an existing room (the room is not full, or
  the sender is already a client) adds the sender to the clients and to the adapter room.
  If \<open>asHost\<close> is set or the room has no host (\<^verbatim>\<open>hostSocketId\<close> is \<^verbatim>\<open>null\<close>, or the
  empty string, which is no socket's id), the sender becomes \<^verbatim>\<open>hostSocketId\<close>, whoever was
  host before, and is sent \<^verbatim>\<open>role {role: 'host'}\<close>. Otherwise the host stays and the sender
  is sent \<^verbatim>\<open>role {role: 'guest'}\<close> followed by \<^verbatim>\<open>sync-state\<close> with the room's state, the
  server time and the host's id.
\<close>

theorem join_assigns_role:
  assumes "rooms s roomId = Some r"
    and "\<not> (2 \<le> length (clients r) \<and> sid \<notin> set (clients r))"
  shows "(asHost \<or> falsy (hostSocketId r) \<longrightarrow>
            join_room s sid roomId asHost now =
              Inr (s\<lparr>rooms := (rooms s)(roomId \<mapsto>
                       r\<lparr>clients := set_add (clients r) sid, hostSocketId := Some sid\<rparr>),
                     adapter := (adapter s)(roomId := insert sid (adapter s roomId))\<rparr>,
                   [(To_socket sid, Role ''host'')])) \<and>
         (\<not> asHost \<and> \<not> falsy (hostSocketId r) \<longrightarrow>
            join_room s sid roomId asHost now =
              Inr (s\<lparr>rooms := (rooms s)(roomId \<mapsto> r\<lparr>clients := set_add (clients r) sid\<rparr>),
                     adapter := (adapter s)(roomId := insert sid (adapter s roomId))\<rparr>,
                   [(To_socket sid, Role ''guest''),
                    (To_socket sid, Sync_state (Some (state r)) now (hostSocketId r))]))"
proof (intro conjI impI)
  assume "asHost \<or> falsy (hostSocketId r)"
  then show "join_room s sid roomId asHost now =
              Inr (s\<lparr>rooms := (rooms s)(roomId \<mapsto>
                       r\<lparr>clients := set_add (clients r) sid, hostSocketId := Some sid\<rparr>),
                     adapter := (adapter s)(roomId := insert sid (adapter s roomId))\<rparr>,
                   [(To_socket sid, Role ''host'')])"
    by (simp only: join_room_admitted[OF assms] if_True)
next
  assume "\<not> asHost \<and> \<not> falsy (hostSocketId r)"
  then have "\<not> (asHost \<or> falsy (hostSocketId r))" by simp
  then show "join_room s sid roomId asHost now =
              Inr (s\<lparr>rooms := (rooms s)(roomId \<mapsto> r\<lparr>clients := set_add (clients r) sid\<rparr>),
                     adapter := (adapter s)(roomId := insert sid (adapter s roomId))\<rparr>,
                   [(To_socket sid, Role ''guest''),
                    (To_socket sid, Sync_state (Some (state r)) now (hostSocketId r))])"
    by (simp only: join_room_admitted[OF assms] if_False)
qed

theorem join_assigns_role_witness:
  "rooms (create init_server ''r1'' (Some ''film.mp4'') (Some ''cover.png'') None 100) ''r1'' =
     Some (new_room ''film.mp4'' ''cover.png'' None 100) \<and>
   \<not> (2 \<le> length (clients (new_room ''film.mp4'' ''cover.png'' None 100)) \<and>
      ''H'' \<notin> set (clients (new_room ''film.mp4'' ''cover.png'' None 100))) \<and>
   falsy (hostSocketId (new_room ''film.mp4'' ''cover.png'' None 100)) \<and>
   (\<exists>s'. join_room (create init_server ''r1'' (Some ''film.mp4'') (Some ''cover.png'') None 100)
           ''H'' ''r1'' False 110 = Inr (s', [(To_socket ''H'', Role ''host'')])) \<and>
   (\<exists>s out r s'. run init_server (butlast demo_events) = Inr (s, out) \<and>
      rooms s ''r1'' = Some r \<and> \<not> (2 \<le> length (clients r) \<and> ''G'' \<notin> set (clients r)) \<and>
      \<not> falsy (hostSocketId r) \<and> hostSocketId r = Some ''H'' \<and>
      join_room s ''G'' ''r1'' False 120 =
        Inr (s', [(To_socket ''G'', Role ''guest''),
                  (To_socket ''G'', Sync_state (Some (state r)) 120 (Some ''H''))]))"
proof -
  define s where "s = create init_server ''r1'' (Some ''film.mp4'') (Some ''cover.png'') None 100"
  define r where "r = new_room ''film.mp4'' ''cover.png'' None 100"
  have a: "rooms s ''r1'' = Some r" by (simp add: s_def r_def create_def)
  have b: "\<not> (2 \<le> length (clients r) \<and> ''H'' \<notin> set (clients r))"
    by (simp add: r_def new_room_def)
  have c: "falsy (hostSocketId r)" by (simp add: r_def new_room_def falsy_def)
  from join_assigns_role[OF a b, of False 110] c
  have "\<exists>s'. join_room s ''H'' ''r1'' False 110 = Inr (s', [(To_socket ''H'', Role ''host'')])"
    by simp
  with a b c have first: "rooms s ''r1'' = Some r \<and>
      \<not> (2 \<le> length (clients r) \<and> ''H'' \<notin> set (clients r)) \<and> falsy (hostSocketId r) \<and>
      (\<exists>s'. join_room s ''H'' ''r1'' False 110 = Inr (s', [(To_socket ''H'', Role ''host'')]))"
    by simp
  obtain t out q where d: "run init_server (butlast demo_events) = Inr (t, out)"
    and e: "rooms t ''r1'' = Some q" and f: "clients q = [''H'']"
    and g: "hostSocketId q = Some ''H''"
    by (simp add: demo_events_def init_server_def create_def new_room_def connection_def
      join_room_def rooms_get_def prototype_keys_def set_add_def falsy_def Let_def)
  from f have h: "\<not> (2 \<le> length (clients q) \<and> ''G'' \<notin> set (clients q))" by simp
  from g have k: "\<not> falsy (hostSocketId q)" by (simp add: falsy_def)
  from join_assigns_role[OF e h, of False 120] g k
  obtain t' where "join_room t ''G'' ''r1'' False 120 =
        Inr (t', [(To_socket ''G'', Role ''guest''),
                  (To_socket ''G'', Sync_state (Some (state q)) 120 (Some ''H''))])"
    by simp
  with d e h k g have second: "\<exists>s out r s'. run init_server (butlast demo_events) = Inr (s, out) \<and>
      rooms s ''r1'' = Some r \<and> \<not> (2 \<le> length (clients r) \<and> ''G'' \<notin> set (clients r)) \<and>
      \<not> falsy (hostSocketId r) \<and> hostSocketId r = Some ''H'' \<and>
      join_room s ''G'' ''r1'' False 120 =
        Inr (s', [(To_socket ''G'', Role ''guest''),
                  (To_socket ''G'', Sync_state (Some (state r)) 120 (Some ''H''))])"
    by (intro exI[of _ t] exI[of _ out] exI[of _ q] exI[of _ t']) simp
  from first second show ?thesis unfolding s_def r_def by (intro conjI) simp_all
qed

text \<open>
  C5. In a reachable state, when the host \<open>h\<close> of a room with the two clients \<open>h\<close> and
  \<open>m\<close> disconnects, the room stays in the registry with \<open>m\<close> as its only client and as
  its host (socket ids are not empty). A \<^verbatim>\<open>control\<close> event that \<open>m\<close> sends afterwards is
  no longer dropped: play stores \<open>playing = True\<close>, pause stores \<open>playing = False\<close>, seek
  keeps \<open>playing\<close>, each stores the supplied \<open>currentTime\<close> and \<open>lastUpdate = now\<close>, and
  each is emitted to the adapter room of the session, in which \<open>m\<close> still is.
\<close>

theorem host_migrates_on_disconnect:
  assumes "run init_server es = Inr (s, out)" and "rooms s roomId = Some r"
    and "set (clients r) = {h, m}" and "h \<noteq> m" and "hostSocketId r = Some h" and "m \<noteq> []"
  shows "rooms (disconnect s h) roomId = Some (r\<lparr>clients := [m], hostSocketId := Some m\<rparr>) \<and>
         control (disconnect s h) m roomId ''play'' ct now =
           Inr ((disconnect s h)\<lparr>rooms := (rooms (disconnect s h))(roomId \<mapsto>
                   r\<lparr>clients := [m], hostSocketId := Some m,
                     state := \<lparr>playing = True, currentTime = ct, lastUpdate = now\<rparr>\<rparr>)\<rparr>,
                [(Io_to roomId, Control_msg ''play'' ct now True)]) \<and>
         control (disconnect s h) m roomId ''pause'' ct now =
           Inr ((disconnect s h)\<lparr>rooms := (rooms (disconnect s h))(roomId \<mapsto>
                   r\<lparr>clients := [m], hostSocketId := Some m,
                     state := \<lparr>playing = False, currentTime = ct, lastUpdate = now\<rparr>\<rparr>)\<rparr>,
                [(Io_to roomId, Control_msg ''pause'' ct now False)]) \<and>
         control (disconnect s h) m roomId ''seek'' ct now =
           Inr ((disconnect s h)\<lparr>rooms := (rooms (disconnect s h))(roomId \<mapsto>
                   r\<lparr>clients := [m], hostSocketId := Some m,
                     state := \<lparr>playing = playing (state r), currentTime = ct,
                                lastUpdate = now\<rparr>\<rparr>)\<rparr>,
                [(Io_to roomId, Control_msg ''seek'' ct now (playing (state r)))]) \<and>
         m \<in> recipients (disconnect s h) (Io_to roomId)"
proof -
  from assms(1) have "inv s" by (rule reachable_inv)
  then have ok: "room_ok s roomId r" using assms(2) by (rule invD)
  then have "distinct (clients r)" by (simp add: room_ok_def)
  then have rem: "removeAll h (clients r) = [m]" using assms(3,4) by (rule removeAll_pair)
  have "leave h r = Some (r\<lparr>clients := [m], hostSocketId := Some m\<rparr>)"
    using assms(3,5,6) rem by (simp add: leave_def set_delete_def first_or_null_def Let_def)
  with assms(2) have room: "rooms (disconnect s h) roomId = Some (r\<lparr>clients := [m], hostSocketId := Some m\<rparr>)"
    by (simp add: rooms_disconnect)
  have play: "control (disconnect s h) m roomId ''play'' ct now =
           Inr ((disconnect s h)\<lparr>rooms := (rooms (disconnect s h))(roomId \<mapsto>
                   r\<lparr>clients := [m], hostSocketId := Some m,
                     state := \<lparr>playing = True, currentTime = ct, lastUpdate = now\<rparr>\<rparr>)\<rparr>,
                [(Io_to roomId, Control_msg ''play'' ct now True)])"
    by (simp add: control_room[OF room] apply_action_play)
  have pause: "control (disconnect s h) m roomId ''pause'' ct now =
           Inr ((disconnect s h)\<lparr>rooms := (rooms (disconnect s h))(roomId \<mapsto>
                   r\<lparr>clients := [m], hostSocketId := Some m,
                     state := \<lparr>playing = False, currentTime = ct, lastUpdate = now\<rparr>\<rparr>)\<rparr>,
                [(Io_to roomId, Control_msg ''pause'' ct now False)])"
    by (simp add: control_room[OF room] apply_action_pause)
  have seek: "control (disconnect s h) m roomId ''seek'' ct now =
           Inr ((disconnect s h)\<lparr>rooms := (rooms (disconnect s h))(roomId \<mapsto>
                   r\<lparr>clients := [m], hostSocketId := Some m,
                     state := \<lparr>playing = playing (state r), currentTime = ct,
                                lastUpdate = now\<rparr>\<rparr>)\<rparr>,
                [(Io_to roomId, Control_msg ''seek'' ct now (playing (state r)))])"
    by (simp add: control_room[OF room] apply_action_seek)
  from ok assms(3) have "m \<in> adapter s roomId" by (auto simp: room_ok_def)
  with assms(4) have "m \<in> recipients (disconnect s h) (Io_to roomId)"
    by (simp add: adapter_disconnect)
  with room play pause seek show ?thesis by (intro conjI)
qed

theorem host_migrates_on_disconnect_witness:
  "\<exists>s out r. run init_server demo_events = Inr (s, out) \<and> rooms s ''r1'' = Some r \<and>
     set (clients r) = {''H'', ''G''} \<and> ''H'' \<noteq> ''G'' \<and> hostSocketId r = Some ''H'' \<and>
     ''G'' \<noteq> [] \<and>
     state r = \<lparr>playing = False, currentTime = 0, lastUpdate = 100\<rparr> \<and>
     rooms (disconnect s ''H'') ''r1'' = Some (r\<lparr>clients := [''G''], hostSocketId := Some ''G''\<rparr>) \<and>
     control (disconnect s ''H'') ''G'' ''r1'' ''play'' 10 140 =
       Inr ((disconnect s ''H'')\<lparr>rooms := (rooms (disconnect s ''H''))(''r1'' \<mapsto>
               r\<lparr>clients := [''G''], hostSocketId := Some ''G'',
                 state := \<lparr>playing = True, currentTime = 10, lastUpdate = 140\<rparr>\<rparr>)\<rparr>,
            [(Io_to ''r1'', Control_msg ''play'' 10 140 True)]) \<and>
     ''G'' \<in> recipients (disconnect s ''H'') (Io_to ''r1'')"
proof -
  obtain s out r where a: "run init_server demo_events = Inr (s, out)"
    and b: "rooms s ''r1'' = Some r" and c: "hostSocketId r = Some ''H''"
    and d: "clients r = [''H'', ''G'']"
    and st: "state r = \<lparr>playing = False, currentTime = 0, lastUpdate = 100\<rparr>"
    by (simp add: demo_events_def init_server_def create_def new_room_def connection_def
      join_room_def rooms_get_def prototype_keys_def set_add_def falsy_def Let_def)
  from d have e: "set (clients r) = {''H'', ''G''}" by simp
  have f: "''H'' \<noteq> ''G''" and g: "''G'' \<noteq> []" by simp_all
  note inst = host_migrates_on_disconnect[OF a b e f c g, of 10 140]
  from inst have room: "rooms (disconnect s ''H'') ''r1'' =
      Some (r\<lparr>clients := [''G''], hostSocketId := Some ''G''\<rparr>)"
    by (elim conjE)
  from inst have play: "control (disconnect s ''H'') ''G'' ''r1'' ''play'' 10 140 =
       Inr ((disconnect s ''H'')\<lparr>rooms := (rooms (disconnect s ''H''))(''r1'' \<mapsto>
               r\<lparr>clients := [''G''], hostSocketId := Some ''G'',
                 state := \<lparr>playing = True, currentTime = 10, lastUpdate = 140\<rparr>\<rparr>)\<rparr>,
            [(Io_to ''r1'', Control_msg ''play'' 10 140 True)])"
    by (elim conjE)
  from inst have rcp: "''G'' \<in> recipients (disconnect s ''H'') (Io_to ''r1'')"
    by (elim conjE)
  from a b e f c g st room play rcp
  show ?thesis by (intro exI[of _ s] exI[of _ out] exI[of _ r] conjI)
qed

text \<open>
  C6. When the only client of a room disconnects, the room is deleted from the registry.
  A later \<^verbatim>\<open>join-room\<close> for the same identifier (a uuid, so not the name of a property
  of \<^verbatim>\<open>Object.prototype\<close>) changes nothing and is answered with the room-error
  "Room not found.", emitted to the requesting socket alone.
\<close>

theorem last_member_leaves:
  assumes "rooms s roomId = Some r" and "set (clients r) = {sid}"
    and "roomId \<notin> set prototype_keys"
  shows "rooms (disconnect s sid) roomId = None \<and>
         join_room (disconnect s sid) sid' roomId asHost now =
           Inr (disconnect s sid, [(To_socket sid', Room_error ''Room not found.'')])"
proof -
  from assms(2) have "removeAll sid (clients r) = []"
    by (metis Diff_cancel set_empty set_removeAll)
  with assms(2) have "leave sid r = None"
    by (simp add: leave_def set_delete_def Let_def)
  with assms(1) have gone: "rooms (disconnect s sid) roomId = None"
    by (simp add: rooms_disconnect)
  with assms(3) show ?thesis by (simp add: join_room_no_room)
qed

theorem last_member_leaves_witness:
  "\<exists>s out r. run init_server (butlast (butlast demo_events)) = Inr (s, out) \<and>
     rooms s ''r1'' = Some r \<and> set (clients r) = {''H''} \<and> ''r1'' \<notin> set prototype_keys \<and>
     rooms (disconnect s ''H'') ''r1'' = None \<and>
     join_room (disconnect s ''H'') ''G'' ''r1'' False 130 =
       Inr (disconnect s ''H'', [(To_socket ''G'', Room_error ''Room not found.'')])"
proof -
  obtain s out r where a: "run init_server (butlast (butlast demo_events)) = Inr (s, out)"
    and b: "rooms s ''r1'' = Some r" and c: "set (clients r) = {''H''}"
    by (simp add: demo_events_def init_server_def create_def new_room_def connection_def
      join_room_def rooms_get_def prototype_keys_def set_add_def falsy_def Let_def)
  have d: "''r1'' \<notin> set prototype_keys" by (simp add: prototype_keys_def)
  from last_member_leaves[OF b c d, of "''G''" False 130] a b c d
  show ?thesis by (intro exI[of _ s] exI[of _ out] exI[of _ r]) simp
qed

text \<open>
  C7 (as the code has it). A \<^verbatim>\<open>control\<close> event that names no room of the registry is
  dropped: the server state is unchanged and nothing is emitted, in particular no
  room-error. Every room-error the server emits comes from \<^verbatim>\<open>join-room\<close> and is emitted
  to the requesting socket alone.
\<close>

theorem control_unknown_room_silent:
  "(rooms s roomId = None \<longrightarrow> control s sid roomId action ct now = Inr (s, [])) \<and>
   (handle s1 e = Inr (s2, out) \<and> (t, Room_error m) \<in> set out \<longrightarrow>
      (\<exists>sid' roomId' asHost now'. e = Join_room sid' roomId' asHost now' \<and> t = To_socket sid'))"
  using control_no_room[of s roomId sid action ct now] handle_room_error[of s1 e s2 out t m]
  by (intro conjI impI) (simp, elim conjE, simp)

theorem control_unknown_room_silent_witness:
  "rooms init_server ''no-such-room'' = None \<and>
   control init_server ''S'' ''no-such-room'' ''play'' 0 1 = Inr (init_server, []) \<and>
   handle init_server (Join_room ''S'' ''no-such-room'' False 1) =
     Inr (init_server, [(To_socket ''S'', Room_error ''Room not found.'')]) \<and>
   (To_socket ''S'', Room_error ''Room not found.'') \<in>
     set [(To_socket ''S'', Room_error ''Room not found.'')] \<and>
   (\<exists>sid' roomId' asHost now'.
      Join_room ''S'' ''no-such-room'' False 1 = Join_room sid' roomId' asHost now' \<and>
      To_socket ''S'' = To_socket sid')"
proof -
  have a: "rooms init_server ''no-such-room'' = None" by (simp add: init_server_def)
  have b: "handle init_server (Join_room ''S'' ''no-such-room'' False 1) =
     Inr (init_server, [(To_socket ''S'', Room_error ''Room not found.'')])"
    by (simp add: join_room_no_room a prototype_keys_def)
  have c: "(To_socket ''S'', Room_error ''Room not found.'') \<in>
     set [(To_socket ''S'', Room_error ''Room not found.'')]" by simp
  note inst = control_unknown_room_silent[of init_server "''no-such-room''" "''S''" "''play''" 0 1
      init_server "Join_room ''S'' ''no-such-room'' False 1" init_server
      "[(To_socket ''S'', Room_error ''Room not found.'')]" "To_socket ''S''" "''Room not found.''"]
  from inst a have d: "control init_server ''S'' ''no-such-room'' ''play'' 0 1 = Inr (init_server, [])"
    by (elim conjE) simp
  from inst b c have e: "\<exists>sid' roomId' asHost now'.
      Join_room ''S'' ''no-such-room'' False 1 = Join_room sid' roomId' asHost now' \<and>
      To_socket ''S'' = To_socket sid'"
    by (elim conjE) simp
  from a b c d e show ?thesis by (intro conjI)
qed

text \<open>
  C7 as stated fails: on a server without rooms, a \<^verbatim>\<open>control\<close> event for the room
  \<^verbatim>\<open>no-such-room\<close> produces no room-error for its sender.
\<close>

theorem control_unknown_room_counterexample:
  "\<not> (\<exists>s' out m. control init_server ''S'' ''no-such-room'' ''play'' 0 1 = Inr (s', out) \<and>
        (To_socket ''S'', Room_error m) \<in> set out)"
  by (simp add: control_no_room init_server_def)




text \<open>
  C10. In a reachable state, a \<^verbatim>\<open>control\<close> event from the host of an existing room whose
  action is none of play, pause and seek leaves the server state as it is, and still
  emits a \<^verbatim>\<open>control\<close> event with that action, the supplied time, the server time and the
  stored \<open>playing\<close> to the adapter room of the session, which holds every client.
\<close>

theorem unknown_action_still_broadcast:
  assumes "run init_server es = Inr (s, out)" and "rooms s roomId = Some r"
    and "hostSocketId r = Some sid"
    and "action \<noteq> ''play''" and "action \<noteq> ''pause''" and "action \<noteq> ''seek''"
  shows "control s sid roomId action ct now =
           Inr (s, [(Io_to roomId, Control_msg action ct now (playing (state r)))]) \<and>
         set (clients r) \<subseteq> recipients s (Io_to roomId)"
proof -
  from assms(1) have "inv s" by (rule reachable_inv)
  then have ok: "room_ok s roomId r" using assms(2) by (rule invD)
  have same: "apply_action action ct now (state r) = state r"
    using assms(4-6) by (rule apply_action_other)
  have "(rooms s)(roomId \<mapsto> r) = rooms s" using assms(2) by (rule map_upd_triv)
  then have "s\<lparr>rooms := (rooms s)(roomId \<mapsto> r\<lparr>state := state r\<rparr>)\<rparr> = s" by simp
  with assms(2,3) same
  have "control s sid roomId action ct now =
           Inr (s, [(Io_to roomId, Control_msg action ct now (playing (state r)))])"
    by (simp add: control_room)
  moreover from ok have "set (clients r) \<subseteq> recipients s (Io_to roomId)"
    by (simp add: room_ok_def)
  ultimately show ?thesis by simp
qed

theorem unknown_action_still_broadcast_witness:
  "\<exists>s out r. run init_server demo_events = Inr (s, out) \<and> rooms s ''r1'' = Some r \<and>
     hostSocketId r = Some ''H'' \<and>
     ''stop'' \<noteq> ''play'' \<and> ''stop'' \<noteq> ''pause'' \<and> ''stop'' \<noteq> ''seek'' \<and>
     control s ''H'' ''r1'' ''stop'' 7 130 =
       Inr (s, [(Io_to ''r1'', Control_msg ''stop'' 7 130 (playing (state r)))]) \<and>
     set (clients r) \<subseteq> recipients s (Io_to ''r1'')"
proof -
  from demo_eval obtain s out r where a: "run init_server demo_events = Inr (s, out)"
    and b: "rooms s ''r1'' = Some r" and c: "hostSocketId r = Some ''H''"
    by (elim exE conjE)
  have d: "''stop'' \<noteq> ''play''" and e: "''stop'' \<noteq> ''pause''" and f: "''stop'' \<noteq> ''seek''"
    by simp_all
  from unknown_action_still_broadcast[OF a b c d e f, of 7 130] a b c
  show ?thesis by (intro exI[of _ s] exI[of _ out] exI[of _ r]) simp
qed

text \<open>
  C8. For a room of the registry, \<^verbatim>\<open>request-sync\<close> emits one \<^verbatim>\<open>sync-state\<close> to the sender
  and changes nothing, and for most other identifiers it does nothing
  (\<open>request_sync_on_rooms\<close>). It is not a silent no-op for every identifier without a
  room, though: no room is called \<^verbatim>\<open>constructor\<close>, yet \<^verbatim>\<open>rooms['constructor']\<close> is the
  function that \<^verbatim>\<open>rooms\<close> inherits from \<^verbatim>\<open>Object.prototype\<close>, the test \<^verbatim>\<open>!room\<close> lets it
  pass, and the sender is sent a \<^verbatim>\<open>sync-state\<close> that carries the server time but neither
  state nor host.
\<close>

theorem request_sync_inherited_key:
  "rooms (connection init_server ''S'') ''constructor'' = None \<and>
   request_sync (connection init_server ''S'') ''S'' ''constructor'' 5 =
     Inr (connection init_server ''S'', [(Io_to ''S'', Sync_state None 5 None)]) \<and>
   recipients (connection init_server ''S'') (Io_to ''S'') = {''S''}"
  by (simp add: request_sync_def rooms_get_def prototype_keys_def connection_def init_server_def)

end
